theory Spec2Isabelle
  imports Complex_Main "HOL-Library.Sublist"
begin

section \<open>Region identity\<close>

text \<open>
  The plugin \<^verbatim>\<open>region_file_updater\<close> keeps three module-level lists (the regions
  waiting for an update, the protected regions and the outcome of the last update) and
  copies region files from a source world into the served world around a server restart.
  This theory embeds the functions of \<^verbatim>\<open>src/region_file_updater/__init__.py\<close>.

  A \<open>region\<close> is what \<^verbatim>\<open>Region.__init__\<close> stores: three Python integers. The selectors
  carry a prefix because \<open>x\<close> and \<open>z\<close> are wanted as variable names.
\<close>

datatype region = Region (reg_x: int) (reg_z: int) (reg_dim: int)

text \<open>
  An object of the class \<^verbatim>\<open>Region\<close>. Every import of the module defines the class
  anew, and \<^verbatim>\<open>on_load\<close> hands objects of the previous import over to the next, so an
  object is its fields together with the number of the import whose class it
  instantiates. \<^verbatim>\<open>__eq__\<close> answers \<^verbatim>\<open>False\<close> unless
  \<^verbatim>\<open>isinstance(other, type(self))\<close>, and compares the three fields otherwise; the
  class has no subclass, so two objects are equal exactly when they are of the same
  import and have the same fields, which is the equality of the datatype.
\<close>

datatype region_obj = Obj (class_id: nat) (coords: region)

text \<open>
  A value of \<^verbatim>\<open>dimension_region_folder\<close> is a folder name or a list of folder names
  (\<^verbatim>\<open>str | list[str]\<close>); \<^verbatim>\<open>to_file_list\<close> tells the two apart with \<^verbatim>\<open>isinstance\<close>.
\<close>

datatype folders = Single string | Many "string list"

text \<open>
  The fields of \<^verbatim>\<open>Config\<close> are its annotated attributes: those are what the loader of
  the framework reads from the configuration file. \<^verbatim>\<open>protected_region_file_name\<close> has
  no annotation, so it is no field: \<^verbatim>\<open>config.protected_region_file_name\<close> is the class
  attribute under every configuration.
\<close>

record config =
  enabled :: bool
  source_world_directory :: string
  destination_world_directory :: string
  dimension_region_folder :: "string \<rightharpoonup> folders"

definition protected_region_file_name :: string where
  "protected_region_file_name = ''protected-regions.json''"

text \<open>The defaults of the fields: the configuration when the file gives nothing else.\<close>

definition default_config :: config where
  "default_config =
     \<lparr> enabled = True,
       source_world_directory = ''./qb_multi/slot1/world'',
       destination_world_directory = ''./server/world'',
       dimension_region_folder =
         [''-1'' \<mapsto> Many [''DIM-1/region'', ''DIM-1/poi''],
          ''0'' \<mapsto> Many [''region'', ''poi''],
          ''1'' \<mapsto> Many [''DIM1/region'', ''DIM1/poi'']] \<rparr>"

text \<open>The exceptions that the modelled code raises.\<close>

datatype exn =
    KeyError
  | TypeError
  | FileNotFoundError
  | SameFileError
  | OSError
  | IllTyped

subsection \<open>Python's \<^verbatim>\<open>str\<close> on integers and \<^verbatim>\<open>os.path.join\<close>\<close>

definition digit :: "nat \<Rightarrow> char" where
  "digit n = ''0123456789'' ! n"

function str_nat :: "nat \<Rightarrow> string" where
  "str_nat n = (if n < 10 then [digit n] else str_nat (n div 10) @ [digit (n mod 10)])"
  by pat_completeness auto
termination
  by (relation "measure id") auto

declare str_nat.simps [simp del]

text \<open>\<^verbatim>\<open>str(i)\<close> and the \<^verbatim>\<open>{i}\<close> of an f-string: decimal digits, a minus sign first when negative.\<close>

definition str_int :: "int \<Rightarrow> string" where
  "str_int i = (if i < 0 then CHR ''-'' # str_nat (nat (- i)) else str_nat (nat i))"

text \<open>
  \<^verbatim>\<open>os.path.join(a, b)\<close> of \<^verbatim>\<open>posixpath\<close>: an absolute second component replaces the
  first; otherwise the two are joined with one separator, none when the first is empty
  or already ends with one.
\<close>

definition path_join :: "string \<Rightarrow> string \<Rightarrow> string" where
  "path_join a b =
     (if b \<noteq> [] \<and> hd b = CHR ''/'' then b
      else if a = [] \<or> last a = CHR ''/'' then a @ b
      else a @ ''/'' @ b)"

subsection \<open>\<^verbatim>\<open>Region.to_file_name\<close> and \<^verbatim>\<open>Region.to_file_list\<close>\<close>

definition to_file_name :: "region \<Rightarrow> string" where
  "to_file_name r = ''r.'' @ str_int (reg_x r) @ ''.'' @ str_int (reg_z r) @ ''.mca''"

text \<open>The folders of a mapping entry in the order \<^verbatim>\<open>to_file_list\<close> walks them.\<close>

fun folder_list :: "folders \<Rightarrow> string list" where
  "folder_list (Single f) = [f]"
| "folder_list (Many fs) = fs"

text \<open>
  \<^verbatim>\<open>config.dimension_region_folder[str(self.dim)]\<close> raises \<^verbatim>\<open>KeyError\<close> for a key the
  dictionary lacks; nothing in \<^verbatim>\<open>to_file_list\<close> catches it.
\<close>

definition to_file_list :: "config \<Rightarrow> region \<Rightarrow> exn + string list" where
  "to_file_list cfg r =
     (case dimension_region_folder cfg (str_int (reg_dim r)) of
        None \<Rightarrow> Inl KeyError
      | Some (Single folder) \<Rightarrow> Inr [path_join folder (to_file_name r)]
      | Some (Many fs) \<Rightarrow> Inr (map (\<lambda>folder. path_join folder (to_file_name r)) fs))"

subsection \<open>\<^verbatim>\<open>get_region_from_source\<close>\<close>

text \<open>
  The coordinate comes from the data API as Python floats, which is why the source
  converts it with \<^verbatim>\<open>int\<close>. A finite float is a real number and \<^verbatim>\<open>int\<close> of it is exact:
  it drops the fraction, rounding towards zero. No rounding of floating-point arithmetic
  takes part, so the coordinate is modelled as a real number.
\<close>

definition py_int :: "real \<Rightarrow> int" where
  "py_int v = (if v < 0 then \<lceil>v\<rceil> else \<lfloor>v\<rfloor>)"

text \<open>
  \<^verbatim>\<open>Region(int(coord.x) // 512, int(coord.z) // 512, dim)\<close>; the player's coordinate and
  dimension, which the data API answers, are the arguments. \<^verbatim>\<open>//\<close> on Python integers is
  floor division, as \<open>div\<close> on \<open>int\<close> is.
\<close>

definition get_region_from_source :: "real \<Rightarrow> real \<Rightarrow> int \<Rightarrow> region" where
  "get_region_from_source coord_x coord_z d =
     Region (py_int coord_x div 512) (py_int coord_z div 512) d"

section \<open>The file system and the persisted list\<close>

text \<open>
  \<^verbatim>\<open>json.dump\<close> and \<^verbatim>\<open>json.load\<close> belong to Python's standard library. A file is
  modelled by what they make of it: \<open>JsonText j\<close> is a file whose text \<^verbatim>\<open>json.load\<close>
  parses to the value \<open>j\<close>, and is what \<^verbatim>\<open>json.dump\<close> of \<open>j\<close> writes; \<open>Bytes b\<close> is any
  other content (a region file, a damaged list), on which \<^verbatim>\<open>json.load\<close> raises.
\<close>

datatype json =
    JNull
  | JBool bool
  | JInt int
  | JFloat real
  | JStr string
  | JArr "json list"
  | JObj "(string \<times> json) list"

datatype content = JsonText json | Bytes string

text \<open>
  \<open>contents\<close> maps the path of every regular file to its content, so
  \<^verbatim>\<open>os.path.isfile\<close> is membership in its domain. \<open>denied\<close> holds for the paths that the
  operating system refuses to create, overwrite or remove (a missing parent directory,
  a read-only file): opening such a path for writing and removing it raise \<^verbatim>\<open>OSError\<close>.
  Paths are told apart as strings.
\<close>

record filesystem =
  contents :: "string \<rightharpoonup> content"
  denied :: "string \<Rightarrow> bool"

definition isfile :: "filesystem \<Rightarrow> string \<Rightarrow> bool" where
  "isfile f p = (contents f p \<noteq> None)"

text \<open>\<^verbatim>\<open>open(p, "w")\<close> followed by writing \<open>c\<close>.\<close>

definition write_file :: "string \<Rightarrow> content \<Rightarrow> filesystem \<Rightarrow> exn + filesystem" where
  "write_file p c f =
     (if denied f p then Inl OSError else Inr (f\<lparr>contents := (contents f)(p \<mapsto> c)\<rparr>))"

text \<open>\<^verbatim>\<open>os.remove(p)\<close>.\<close>

definition os_remove :: "string \<Rightarrow> filesystem \<Rightarrow> exn + filesystem" where
  "os_remove p f =
     (if contents f p = None then Inl FileNotFoundError
      else if denied f p then Inl OSError
      else Inr (f\<lparr>contents := (contents f)(p := None)\<rparr>))"

text \<open>
  \<^verbatim>\<open>shutil.copyfile(src, dst)\<close>: it refuses to copy a file onto itself, then opens the
  source for reading and the destination for writing. It creates no directory.
\<close>

definition copyfile :: "string \<Rightarrow> string \<Rightarrow> filesystem \<Rightarrow> exn + filesystem" where
  "copyfile src dst f =
     (if src = dst then Inl SameFileError
      else case contents f src of
          None \<Rightarrow> Inl FileNotFoundError
        | Some c \<Rightarrow> write_file dst c f)"

section \<open>The module state\<close>

text \<open>
  What the caller of a command is told (\<^verbatim>\<open>source.reply\<close>), one constructor for each
  message text of the source; a region appears in a message by its fields
  (\<^verbatim>\<open>__repr__\<close>).
\<close>

datatype reply =
    AlreadyInList
  | Added region
  | NotInList
  | Deleted region
  | ListCleared
  | AlreadyProtected
  | RemovedAndProtected region
  | NowProtected region
  | Deprotected region
  | NotProtected
  | AllDeprotected
  | ListCount nat
  | ListItem region
  | HistoryCount nat
  | HistoryItem region bool
  | ProtectedCount nat
  | ProtectedItem region
  | RestartIn nat
  | SecondsLeft nat
  | NotEnabled
  | ReloadingConfig

text \<open>The calls on the server: \<^verbatim>\<open>stop()\<close>, \<^verbatim>\<open>wait_for_start()\<close> and \<^verbatim>\<open>start()\<close>.\<close>

datatype server_call = Stop | WaitForStart | Start

text \<open>What \<^verbatim>\<open>logger.info\<close>, \<^verbatim>\<open>logger.error\<close> and \<^verbatim>\<open>print_log\<close> are given.\<close>

datatype log_entry =
    LoadFailed string
  | UpdateHeader nat
  | LogDeleted string
  | LogCopy string string
  | Outcome region "exn option"

text \<open>
  The globals of the module (\<open>config\<close>, \<open>regionList\<close>, \<open>protectedRegionList\<close>,
  \<open>historyList\<close>) together with what the functions act on: the file system, the replies
  sent, the calls made on the server and the log, each oldest first. \<open>module_id\<close> numbers
  the import of the module that is in force, and \<open>old_configs\<close> keeps the global
  \<open>config\<close> of each earlier import, which the methods of that import's objects still
  read. \<^verbatim>\<open>print_log\<close> also appends its line to the plugin's own log file inside a
  \<^verbatim>\<open>try\<close> that swallows every exception; that file is left out.
\<close>

record state =
  config :: config
  regionList :: "region_obj list"
  protectedRegionList :: "region_obj list"
  historyList :: "(region_obj \<times> bool) list"
  fs :: filesystem
  replies :: "reply list"
  server_calls :: "server_call list"
  logger :: "log_entry list"
  module_id :: nat
  old_configs :: "nat \<Rightarrow> config"

text \<open>
  The \<open>config\<close> that a method of the object \<open>r\<close> sees: the global of the module that
  defines its class.
\<close>

definition class_config :: "state \<Rightarrow> region_obj \<Rightarrow> config" where
  "class_config s r = (if class_id r = module_id s then config s else old_configs s (class_id r))"

definition reply :: "reply \<Rightarrow> state \<Rightarrow> state" where
  "reply m s = s\<lparr>replies := replies s @ [m]\<rparr>"

definition log_line :: "log_entry \<Rightarrow> state \<Rightarrow> state" where
  "log_line e s = s\<lparr>logger := logger s @ [e]\<rparr>"

section \<open>The region set manager\<close>

text \<open>
  \<^verbatim>\<open>region in regionList\<close> and \<^verbatim>\<open>regionList.remove(region)\<close> go by \<^verbatim>\<open>__eq__\<close>;
  \<^verbatim>\<open>remove\<close> deletes the first equal element, as \<open>remove1\<close> does.
\<close>

definition add_region :: "region_obj \<Rightarrow> state \<Rightarrow> state" where
  "add_region r s =
     (if r \<in> set (regionList s) then reply AlreadyInList s
      else if r \<notin> set (protectedRegionList s)
        then reply (Added (coords r)) (s\<lparr>regionList := regionList s @ [r]\<rparr>)
      else s)"

definition delete_region :: "region_obj \<Rightarrow> state \<Rightarrow> state" where
  "delete_region r s =
     (if r \<notin> set (regionList s) then reply NotInList s
      else reply (Deleted (coords r)) (s\<lparr>regionList := remove1 r (regionList s)\<rparr>))"

definition clean_region_list :: "state \<Rightarrow> state" where
  "clean_region_list s = reply ListCleared (s\<lparr>regionList := []\<rparr>)"

subsection \<open>Saving and loading the protected list\<close>

definition protected_path :: "config \<Rightarrow> string" where
  "protected_path cfg = path_join (destination_world_directory cfg) protected_region_file_name"

text \<open>
  \<^verbatim>\<open>serialize\<close> of the plugin framework turns a \<^verbatim>\<open>Region\<close> into the dictionary of its
  attributes, in the order \<^verbatim>\<open>__init__\<close> sets them, whatever import its class is of.
\<close>

definition serialize_region :: "region \<Rightarrow> json" where
  "serialize_region r =
     JObj [(''x'', JInt (reg_x r)), (''z'', JInt (reg_z r)), (''dim'', JInt (reg_dim r))]"

definition serialize :: "region_obj list \<Rightarrow> json" where
  "serialize rs = JArr (map (\<lambda>r. serialize_region (coords r)) rs)"

text \<open>A raise leaves the state as it is at that moment, beside the exception.\<close>

definition save_protected_region_file :: "state \<Rightarrow> state \<times> exn option" where
  "save_protected_region_file s =
     (case write_file (protected_path (config s))
             (JsonText (serialize (protectedRegionList s))) (fs s) of
        Inl e \<Rightarrow> (s, Some e)
      | Inr f \<Rightarrow> (s\<lparr>fs := f\<rparr>, None))"

text \<open>
  What Python does with the parsed value in
  \<^verbatim>\<open>Region(r["x"], r["z"], r["dim"]) for r in protected_list_data\<close>. Iterating a list
  gives its items, a dictionary its keys, a string its characters; anything else is not
  iterable. \<open>JObj\<close> holds the items of the parsed dictionary, each key once.
\<close>

fun json_iter :: "json \<Rightarrow> exn + json list" where
  "json_iter (JArr js) = Inr js"
| "json_iter (JObj kvs) = Inr (map (\<lambda>kv. JStr (fst kv)) kvs)"
| "json_iter (JStr cs) = Inr (map (\<lambda>c. JStr [c]) cs)"
| "json_iter j = Inl TypeError"

text \<open>\<^verbatim>\<open>r[k]\<close> for a string \<open>k\<close>: only a dictionary can be indexed by it.\<close>

fun json_get :: "json \<Rightarrow> string \<Rightarrow> exn + json" where
  "json_get (JObj kvs) k = (case map_of kvs k of None \<Rightarrow> Inl KeyError | Some v \<Rightarrow> Inr v)"
| "json_get j k = Inl TypeError"

text \<open>
  The three subscripts are evaluated from left to right. \<^verbatim>\<open>Region\<close> is declared over
  integers, and so is \<^typ>\<open>region\<close>: where Python would store a value of another JSON
  type in the object, the model stops with \<open>IllTyped\<close>.
\<close>

definition region_of_json :: "json \<Rightarrow> exn + region" where
  "region_of_json r =
     (case json_get r ''x'' of Inl e \<Rightarrow> Inl e | Inr vx \<Rightarrow>
      case json_get r ''z'' of Inl e \<Rightarrow> Inl e | Inr vz \<Rightarrow>
      case json_get r ''dim'' of Inl e \<Rightarrow> Inl e | Inr vd \<Rightarrow>
      (case (vx, vz, vd) of
         (JInt a, JInt b, JInt c) \<Rightarrow> Inr (Region a b c)
       | _ \<Rightarrow> Inl IllTyped))"

text \<open>
  \<^verbatim>\<open>list.extend\<close> of a generator appends the items one at a time; when the generator
  raises, the items appended so far stay in the list. The objects are of the class of
  the import in force.
\<close>

fun extend_regions :: "json list \<Rightarrow> state \<Rightarrow> state \<times> exn option" where
  "extend_regions [] s = (s, None)"
| "extend_regions (j # js) s =
     (case region_of_json j of
        Inl e \<Rightarrow> (s, Some e)
      | Inr r \<Rightarrow>
          extend_regions js
            (s\<lparr>protectedRegionList := protectedRegionList s @ [Obj (module_id s) r]\<rparr>))"

definition load_protected_region_file :: "state \<Rightarrow> state \<times> exn option" where
  "load_protected_region_file s =
     (case contents (fs s) (protected_path (config s)) of
        None \<Rightarrow> (s, None)
      | Some (Bytes b) \<Rightarrow>
          save_protected_region_file
            ((log_line (LoadFailed (protected_path (config s))) s)\<lparr>protectedRegionList := []\<rparr>)
      | Some (JsonText j) \<Rightarrow>
          (case json_iter j of
             Inl e \<Rightarrow> (s, Some e)
           | Inr items \<Rightarrow> extend_regions items s))"

subsection \<open>Protecting and deprotecting\<close>

definition protect_region :: "region_obj \<Rightarrow> state \<Rightarrow> state \<times> exn option" where
  "protect_region r s =
     (if r \<in> set (protectedRegionList s) then (reply AlreadyProtected s, None)
      else
        let s1 = s\<lparr>protectedRegionList := protectedRegionList s @ [r]\<rparr>;
            s2 = (if r \<in> set (regionList s1)
                  then reply (RemovedAndProtected (coords r))
                         (s1\<lparr>regionList := remove1 r (regionList s1)\<rparr>)
                  else reply (NowProtected (coords r)) s1)
        in save_protected_region_file s2)"

definition deprotect_region :: "region_obj \<Rightarrow> state \<Rightarrow> state \<times> exn option" where
  "deprotect_region r s =
     (if r \<in> set (protectedRegionList s)
      then save_protected_region_file
             (reply (Deprotected (coords r))
                (s\<lparr>protectedRegionList := remove1 r (protectedRegionList s)\<rparr>))
      else (reply NotProtected s, None))"

definition deprotect_all_regions :: "state \<Rightarrow> state \<times> exn option" where
  "deprotect_all_regions s =
     save_protected_region_file (reply AllDeprotected (s\<lparr>protectedRegionList := []\<rparr>))"

section \<open>The update\<close>

definition show_region_list :: "state \<Rightarrow> state" where
  "show_region_list s =
     s\<lparr>replies := replies s @ ListCount (length (regionList s)) #
          map (\<lambda>r. ListItem (coords r)) (regionList s)\<rparr>"

text \<open>
  One pass of the inner loop of \<^verbatim>\<open>region_update\<close>, for the region \<open>r\<close> and one of its
  files: the \<^verbatim>\<open>try\<close> with its \<^verbatim>\<open>except Exception\<close> and \<^verbatim>\<open>else\<close>, then
  \<^verbatim>\<open>historyList.append((region, flag))\<close> and the \<^verbatim>\<open>print_log\<close> of the outcome.
\<close>

definition transfer_file :: "region_obj \<Rightarrow> string \<Rightarrow> state \<Rightarrow> state" where
  "transfer_file r region_file s =
     (let src_file = path_join (source_world_directory (config s)) region_file;
          dest_file = path_join (destination_world_directory (config s)) region_file;
          (s1, e) =
            (if \<not> isfile (fs s) src_file \<and> isfile (fs s) dest_file
             then (case os_remove dest_file (fs s) of
                     Inl e \<Rightarrow> (s, Some e)
                   | Inr f \<Rightarrow> (log_line (LogDeleted src_file) (s\<lparr>fs := f\<rparr>), None))
             else (case copyfile src_file dest_file (fs s) of
                     Inl e \<Rightarrow> (log_line (LogCopy src_file dest_file) s, Some e)
                   | Inr f \<Rightarrow> ((log_line (LogCopy src_file dest_file) s)\<lparr>fs := f\<rparr>, None)))
      in log_line (Outcome (coords r) e) (s1\<lparr>historyList := historyList s1 @ [(r, e = None)]\<rparr>))"

text \<open>The inner loop, over the files of one region.\<close>

fun transfer_files :: "region_obj \<Rightarrow> string list \<Rightarrow> state \<Rightarrow> state" where
  "transfer_files r [] s = s"
| "transfer_files r (p # ps) s = transfer_files r ps (transfer_file r p s)"

text \<open>
  The outer loop. \<^verbatim>\<open>region.to_file_list()\<close> is evaluated in the head of the inner
  \<^verbatim>\<open>for\<close>, outside the \<^verbatim>\<open>try\<close>: its \<^verbatim>\<open>KeyError\<close> ends the loop and leaves
  \<^verbatim>\<open>region_update\<close>. The method reads the \<open>config\<close> of the module of its class.
\<close>

fun transfer_regions :: "region_obj list \<Rightarrow> state \<Rightarrow> state \<times> exn option" where
  "transfer_regions [] s = (s, None)"
| "transfer_regions (r # rs) s =
     (case to_file_list (class_config s r) (coords r) of
        Inl e \<Rightarrow> (s, Some e)
      | Inr ps \<Rightarrow> transfer_regions rs (transfer_files r ps s))"

text \<open>
  \<^verbatim>\<open>region_update\<close>: the list is shown, the restart announced and counted down
  (\<^verbatim>\<open>countdown = 5\<close>, one message for each \<^verbatim>\<open>i\<close> of \<^verbatim>\<open>range(1, countdown)\<close>), the server
  stopped, the files transferred, the list cleared and the server started.
\<close>

definition countdown :: nat where
  "countdown = 5"

definition announce :: "state \<Rightarrow> state" where
  "announce s =
     s\<lparr>replies := replies s @ RestartIn countdown #
          map (\<lambda>i. SecondsLeft (countdown - i)) [1..<countdown]\<rparr>"

definition stop_server :: "state \<Rightarrow> state" where
  "stop_server s = s\<lparr>server_calls := server_calls s @ [Stop, WaitForStart]\<rparr>"

definition start_server :: "state \<Rightarrow> state" where
  "start_server s = s\<lparr>server_calls := server_calls s @ [Start]\<rparr>"

definition region_update :: "state \<Rightarrow> state \<times> exn option" where
  "region_update s =
     (let s1 = stop_server (announce (show_region_list s));
          s2 = (log_line (UpdateHeader (length (regionList s1))) s1)\<lparr>historyList := []\<rparr>
      in case transfer_regions (regionList s2) s2 of
           (s3, Some e) \<Rightarrow> (s3, Some e)
         | (s3, None) \<Rightarrow> (start_server (s3\<lparr>regionList := []\<rparr>), None))"

definition show_history :: "state \<Rightarrow> state" where
  "show_history s =
     s\<lparr>replies := replies s @ HistoryCount (length (historyList s)) #
          map (\<lambda>(r, flag). HistoryItem (coords r) flag) (historyList s)\<rparr>"

definition show_protected_regions :: "state \<Rightarrow> state" where
  "show_protected_regions s =
     s\<lparr>replies := replies s @ ProtectedCount (length (protectedRegionList s)) #
          map (\<lambda>r. ProtectedItem (coords r)) (protectedRegionList s)\<rparr>"

section \<open>Loading the plugin and running commands\<close>

text \<open>
  Importing the module defines the class \<^verbatim>\<open>Region\<close> anew and binds the three lists to
  new empty lists; the module imported before keeps its \<open>config\<close>. \<^verbatim>\<open>on_load\<close> then
  takes \<^verbatim>\<open>historyList\<close> and \<^verbatim>\<open>regionList\<close>, with the objects they hold, from the
  previous instance \<open>old\<close> of the plugin (\<open>None\<close> on the first load, where the
  \<^verbatim>\<open>AttributeError\<close> is passed over), reads the configuration (\<open>cfg\<close> is what
  \<^verbatim>\<open>load_config_simple\<close> returns) and loads the protected list from its file. The state
  \<open>s\<close> is the one at the moment of the load.
\<close>

definition fresh_module :: "state \<Rightarrow> state" where
  "fresh_module s =
     s\<lparr>old_configs := (old_configs s)(module_id s := config s),
       module_id := Suc (module_id s),
       regionList := [], protectedRegionList := [], historyList := []\<rparr>"

definition on_load :: "config \<Rightarrow> state option \<Rightarrow> state \<Rightarrow> state \<times> exn option" where
  "on_load cfg old s =
     (let s1 = (case old of
                  None \<Rightarrow> fresh_module s
                | Some m \<Rightarrow> (fresh_module s)\<lparr>historyList := historyList m, regionList := regionList m\<rparr>)
      in load_protected_region_file (s1\<lparr>config := cfg\<rparr>))"

definition reload_config :: "config \<Rightarrow> state \<Rightarrow> state" where
  "reload_config cfg s = (reply ReloadingConfig s)\<lparr>config := cfg\<rparr>"

text \<open>
  The commands that \<^verbatim>\<open>register_commands\<close> binds, with the fields of the region that
  the command gives or that \<^verbatim>\<open>get_region_from_source\<close> computed; the object is built
  from the class of the import in force. \<^verbatim>\<open>deprotect_all_regions\<close> is bound to no
  command. \<open>ReloadConfig\<close> and \<open>ReloadPlugin\<close> carry the configuration read at that
  moment, and \<open>Environment\<close> is a change made to the files from outside the plugin. The
  node of \<^verbatim>\<open>update\<close> requires \<^verbatim>\<open>config.enabled\<close>. An exception that leaves a command
  is reported by the framework; the state stays as the command left it.
\<close>

datatype command =
    AddCmd region
  | DelCmd region
  | DelAllCmd
  | ProtectCmd region
  | DeprotectCmd region
  | ListCmd
  | ListProtectCmd
  | HistoryCmd
  | UpdateCmd
  | ReloadConfig config
  | ReloadPlugin config
  | Environment filesystem

fun exec :: "command \<Rightarrow> state \<Rightarrow> state" where
  "exec (AddCmd r) s = add_region (Obj (module_id s) r) s"
| "exec (DelCmd r) s = delete_region (Obj (module_id s) r) s"
| "exec DelAllCmd s = clean_region_list s"
| "exec (ProtectCmd r) s = fst (protect_region (Obj (module_id s) r) s)"
| "exec (DeprotectCmd r) s = fst (deprotect_region (Obj (module_id s) r) s)"
| "exec ListCmd s = show_region_list s"
| "exec ListProtectCmd s = show_protected_regions s"
| "exec HistoryCmd s = show_history s"
| "exec UpdateCmd s = (if enabled (config s) then fst (region_update s) else reply NotEnabled s)"
| "exec (ReloadConfig cfg) s = reload_config cfg s"
| "exec (ReloadPlugin cfg) s = fst (on_load cfg (Some s) s)"
| "exec (Environment f) s = s\<lparr>fs := f\<rparr>"

fun run :: "command list \<Rightarrow> state \<Rightarrow> state" where
  "run [] s = s"
| "run (c # cs) s = run cs (exec c s)"

text \<open>
  A state of the import number 0 with empty lists, over the files \<open>f\<close>; the first load
  of the plugin starts from it.
\<close>

definition blank :: "config \<Rightarrow> filesystem \<Rightarrow> state" where
  "blank cfg f =
     \<lparr> config = cfg, regionList = [], protectedRegionList = [], historyList = [],
       fs = f, replies = [], server_calls = [], logger = [],
       module_id = 0, old_configs = (\<lambda>n. cfg) \<rparr>"

definition startup :: "config \<Rightarrow> filesystem \<Rightarrow> state" where
  "startup cfg f = fst (on_load cfg None (blank cfg f))"

section \<open>What the transfer is expected to record\<close>

text \<open>
  The ledger of an update, written without the loops and the exceptions: the files of
  a region, whether the step for one file goes through on a given file system, what it
  leaves behind, and the entries for a list of (region, file) pairs treated in order.
\<close>

definition mapped :: "config \<Rightarrow> region \<Rightarrow> bool" where
  "mapped cfg r = (dimension_region_folder cfg (str_int (reg_dim r)) \<noteq> None)"







text \<open>
  Within one load of the plugin the objects of both lists are of the class of that
  load.
\<close>

definition one_class :: "state \<Rightarrow> bool" where
  "one_class s =
     (list_all (\<lambda>r. class_id r = module_id s) (regionList s) \<and>
      list_all (\<lambda>r. class_id r = module_id s) (protectedRegionList s))"

text \<open>The commands that load the plugin anew.\<close>

definition reloads :: "command \<Rightarrow> bool" where
  "reloads c = (case c of ReloadPlugin cfg \<Rightarrow> True | _ \<Rightarrow> False)"

section \<open>Concrete situations\<close>

text \<open>A file system with no file, on which nothing is denied.\<close>

definition empty_files :: filesystem where
  "empty_files = \<lparr> contents = Map.empty, denied = (\<lambda>p. False) \<rparr>"

text \<open>
  Three regions of the overworld, each with one file: the first was removed upstream
  and is still served, the second exists on both sides, the third cannot be written.
\<close>

definition single_config :: config where
  "single_config = default_config\<lparr>dimension_region_folder := [''0'' \<mapsto> Single ''region'']\<rparr>"





text \<open>
  A configuration that maps the overworld only, and a pending region of the End
  (dimension 1, which the command \<^verbatim>\<open>add\<close> accepts).
\<close>

definition overworld_config :: config where
  "overworld_config =
     default_config\<lparr>dimension_region_folder := [''0'' \<mapsto> Many [''region'', ''poi'']]\<rparr>"

definition end_state :: state where
  "end_state = (blank overworld_config empty_files)\<lparr>regionList := [Obj 0 (Region 0 0 1)]\<rparr>"

text \<open>
  The served world as a backup holds it, taken while the region \<open>(0, 0, 0)\<close> was
  protected, and a course of commands: the region is protected, then deprotected and
  added to the pending list, the world is restored from the backup, and the plugin is
  loaded anew.
\<close>

definition restored_files :: filesystem where
  "restored_files =
     \<lparr> contents =
         [''./server/world/protected-regions.json'' \<mapsto>
            JsonText (JArr [JObj [(''x'', JInt 0), (''z'', JInt 0), (''dim'', JInt 0)]])],
       denied = (\<lambda>p. False) \<rparr>"

definition restore_commands :: "command list" where
  "restore_commands =
     [ProtectCmd (Region 0 0 0), DeprotectCmd (Region 0 0 0), AddCmd (Region 0 0 0),
      Environment restored_files, ReloadPlugin default_config]"

text \<open>A state in which one region is protected and nothing is pending.\<close>

definition protected_state :: state where
  "protected_state =
     (blank default_config empty_files)\<lparr>protectedRegionList := [Obj 0 (Region 0 0 0)]\<rparr>"

text \<open>
  States for the persisted list: two protected regions and no file yet; a file that is
  not JSON beside a protected region in memory, once rewritable and once not; a file
  that lists two regions beside a third in memory.
\<close>

definition saved_state :: state where
  "saved_state =
     (blank default_config empty_files)
       \<lparr>protectedRegionList := [Obj 0 (Region 1 (- 2) 0), Obj 0 (Region 0 0 1)]\<rparr>"

definition corrupt_files :: filesystem where
  "corrupt_files =
     \<lparr> contents = [''./server/world/protected-regions.json'' \<mapsto> Bytes ''[{''],
       denied = (\<lambda>p. False) \<rparr>"

definition corrupt_state :: state where
  "corrupt_state =
     (blank default_config corrupt_files)\<lparr>protectedRegionList := [Obj 0 (Region 5 5 0)]\<rparr>"

definition readonly_files :: filesystem where
  "readonly_files =
     \<lparr> contents = [''./server/world/protected-regions.json'' \<mapsto> Bytes ''[{''],
       denied = (\<lambda>p. p = ''./server/world/protected-regions.json'') \<rparr>"

definition readonly_state :: state where
  "readonly_state =
     (blank default_config readonly_files)\<lparr>protectedRegionList := [Obj 0 (Region 5 5 0)]\<rparr>"

definition listed_files :: filesystem where
  "listed_files =
     \<lparr> contents =
         [''./server/world/protected-regions.json'' \<mapsto>
            JsonText (JArr [JObj [(''x'', JInt 1), (''z'', JInt (- 2)), (''dim'', JInt 0)],
                            JObj [(''x'', JInt 0), (''z'', JInt 0), (''dim'', JInt 1)]])],
       denied = (\<lambda>p. False) \<rparr>"

definition listed_state :: state where
  "listed_state =
     (blank default_config listed_files)\<lparr>protectedRegionList := [Obj 0 (Region 5 5 0)]\<rparr>"

section \<open>Evaluation\<close>

lemmas eval_defs = str_int_def str_nat.simps digit_def path_join_def to_file_name_def
  to_file_list_def default_config_def blank_def isfile_def empty_files_def
  protected_region_file_name_def class_config_def

lemmas persist_defs = protected_path_def save_protected_region_file_def write_file_def
  load_protected_region_file_def serialize_def serialize_region_def region_of_json_def
  on_load_def fresh_module_def startup_def log_line_def reply_def

lemmas manager_defs = add_region_def delete_region_def clean_region_list_def
  protect_region_def deprotect_region_def reload_config_def

lemmas update_defs = region_update_def transfer_file_def show_region_list_def announce_def
  countdown_def stop_server_def start_server_def log_line_def os_remove_def copyfile_def
  write_file_def

section \<open>Region identity: properties\<close>

text \<open>
  Claim C7. \<^verbatim>\<open>to_file_list\<close> fails exactly when the dimension of the region, written as
  a string, has no entry in the mapping, and then with \<^verbatim>\<open>KeyError\<close> (the configuration
  error of the specification) and nothing else. With an entry it returns one relative
  path for each folder of the entry, in the order of the entry, a single folder name
  counting as a list of one.
\<close>

theorem to_file_list_mapping:
  "(to_file_list cfg r = Inl KeyError \<longleftrightarrow>
      dimension_region_folder cfg (str_int (reg_dim r)) = None) \<and>
   (\<forall>e. to_file_list cfg r = Inl e \<longrightarrow> e = KeyError) \<and>
   (\<forall>fo. dimension_region_folder cfg (str_int (reg_dim r)) = Some fo \<longrightarrow>
      to_file_list cfg r =
        Inr (map (\<lambda>folder. path_join folder (to_file_name r)) (folder_list fo)))"
  by (auto simp: to_file_list_def split: option.splits folders.splits)

theorem to_file_list_mapping_witness:
  "to_file_list default_config (Region 1 (- 2) 0) =
     Inr [''region/r.1.-2.mca'', ''poi/r.1.-2.mca''] \<and>
   to_file_list single_config (Region 1 (- 2) 0) = Inr [''region/r.1.-2.mca''] \<and>
   to_file_list default_config (Region 1 (- 2) 7) = Inl KeyError"
proof -
  have many: "dimension_region_folder default_config (str_int (reg_dim (Region 1 (- 2) 0))) =
      Some (Many [''region'', ''poi''])"
    by (simp add: default_config_def str_int_def str_nat.simps digit_def)
  have one: "dimension_region_folder single_config (str_int (reg_dim (Region 1 (- 2) 0))) =
      Some (Single ''region'')"
    by (simp add: single_config_def str_int_def str_nat.simps digit_def)
  have none: "dimension_region_folder default_config (str_int (reg_dim (Region 1 (- 2) 7))) = None"
    by (simp add: default_config_def str_int_def str_nat.simps digit_def)
  have name: "to_file_name (Region 1 (- 2) 0) = ''r.1.-2.mca''"
    by (simp add: to_file_name_def str_int_def str_nat.simps digit_def)
  from to_file_list_mapping[of default_config "Region 1 (- 2) 0"] many
  have a: "to_file_list default_config (Region 1 (- 2) 0) =
      Inr (map (\<lambda>folder. path_join folder ''r.1.-2.mca'') [''region'', ''poi''])"
    by (simp add: name)
  from to_file_list_mapping[of single_config "Region 1 (- 2) 0"] one
  have b: "to_file_list single_config (Region 1 (- 2) 0) =
      Inr (map (\<lambda>folder. path_join folder ''r.1.-2.mca'') [''region''])"
    by (simp add: name)
  from to_file_list_mapping[of default_config "Region 1 (- 2) 7"] none
  have c: "to_file_list default_config (Region 1 (- 2) 7) = Inl KeyError"
    by blast
  from a b c show ?thesis
    by (simp add: path_join_def)
qed

text \<open>
  For a coordinate that is a whole number, and for any coordinate that is not negative,
  the region index is the floor of the coordinate divided by 512.
\<close>

lemma py_int_nonneg: "0 \<le> v \<Longrightarrow> py_int v div 512 = \<lfloor>v / 512\<rfloor>"
  using floor_divide_real_eq_div[of 512 v] by (simp add: py_int_def)

lemma py_int_of_int: "py_int (of_int a) div 512 = \<lfloor>of_int a / (512::real)\<rfloor>"
  using floor_divide_real_eq_div[of 512 "of_int a"] by (simp add: py_int_def)

lemma get_region_from_source_whole:
  "get_region_from_source (of_int a) (of_int b) d =
     Region \<lfloor>of_int a / (512::real)\<rfloor> \<lfloor>of_int b / (512::real)\<rfloor> d"
  by (simp add: get_region_from_source_def py_int_of_int)

text \<open>
  Claim C8, which says that every coordinate, negative ones included, is mapped to the
  floor of the coordinate divided by 512. A player standing at \<open>x = -0.5\<close> is in the
  region of index \<open>-1\<close>; \<^verbatim>\<open>int\<close> rounds the coordinate to \<open>0\<close> before the floor division,
  and the function answers the region of index \<open>0\<close>.
\<close>

theorem get_region_from_source_truncates:
  "get_region_from_source (- 1 / 2) 0 d = Region 0 0 d \<and> \<lfloor>(- 1 / 2 :: real) / 512\<rfloor> = - 1"
  by (simp add: get_region_from_source_def py_int_def)

section \<open>The update: properties\<close>


lemma transfer_file_frame [simp]:
  "config (transfer_file r p s) = config s"
  "module_id (transfer_file r p s) = module_id s"
  "old_configs (transfer_file r p s) = old_configs s"
  "regionList (transfer_file r p s) = regionList s"
  "protectedRegionList (transfer_file r p s) = protectedRegionList s"
  "server_calls (transfer_file r p s) = server_calls s"
  by (simp_all add: transfer_file_def Let_def log_line_def split: sum.splits prod.splits)

lemma transfer_files_frame [simp]:
  "config (transfer_files r ps s) = config s"
  "module_id (transfer_files r ps s) = module_id s"
  "old_configs (transfer_files r ps s) = old_configs s"
  "regionList (transfer_files r ps s) = regionList s"
  "protectedRegionList (transfer_files r ps s) = protectedRegionList s"
  "server_calls (transfer_files r ps s) = server_calls s"
  by (induction ps arbitrary: s) simp_all

lemma transfer_regions_frame [simp]:
  "config (fst (transfer_regions rs s)) = config s"
  "module_id (fst (transfer_regions rs s)) = module_id s"
  "old_configs (fst (transfer_regions rs s)) = old_configs s"
  "regionList (fst (transfer_regions rs s)) = regionList s"
  "protectedRegionList (fst (transfer_regions rs s)) = protectedRegionList s"
  "server_calls (fst (transfer_regions rs s)) = server_calls s"
  by (induction rs arbitrary: s) (simp_all split: sum.splits)








lemma unmapped_to_file_list:
  "\<not> mapped cfg r \<Longrightarrow> to_file_list cfg r = Inl KeyError"
  by (simp add: mapped_def to_file_list_def)




lemma region_update_prep:
  "region_update s =
     (case transfer_regions (regionList s)
        ((log_line (UpdateHeader (length (regionList s)))
            (stop_server (announce (show_region_list s))))\<lparr>historyList := []\<rparr>) of
        (s3, Some e) \<Rightarrow> (s3, Some e)
      | (s3, None) \<Rightarrow> (start_server (s3\<lparr>regionList := []\<rparr>), None))"
  by (simp add: region_update_def Let_def stop_server_def announce_def show_region_list_def
      log_line_def)




text \<open>
  The calls on the server: \<^verbatim>\<open>stop\<close> and the wait always, \<^verbatim>\<open>start\<close> after them when
  the transfer raised nothing, which is the case when every pending region is mapped.
\<close>

lemma region_update_server_calls:
  "server_calls (fst (region_update s)) =
     server_calls s @ [Stop, WaitForStart] @ (if snd (region_update s) = None then [Start] else [])"
proof -
  let ?s2 = "(log_line (UpdateHeader (length (regionList s)))
               (stop_server (announce (show_region_list s))))\<lparr>historyList := []\<rparr>"
  have "server_calls (fst (transfer_regions (regionList s) ?s2)) = server_calls ?s2"
    by (rule transfer_regions_frame)
  also have "\<dots> = server_calls s @ [Stop, WaitForStart]"
    by (simp add: stop_server_def announce_def show_region_list_def log_line_def)
  finally show ?thesis
    by (cases "transfer_regions (regionList s) ?s2")
      (auto simp: region_update_prep start_server_def split: option.splits)
qed

text \<open>
  Claim C2, which says that every update calls \<^verbatim>\<open>stop\<close> and then \<^verbatim>\<open>start\<close>, also when
  a pending region has a dimension without mapping. With the overworld alone in the
  mapping and a region of dimension 1 pending, the update stops the server and ends with
  \<^verbatim>\<open>KeyError\<close>: \<^verbatim>\<open>start\<close> is not called and the pending list is not cleared.
\<close>

theorem region_update_unmapped_dimension:
  "snd (region_update end_state) = Some KeyError \<and>
   server_calls (fst (region_update end_state)) = [Stop, WaitForStart] \<and>
   regionList (fst (region_update end_state)) = [Obj 0 (Region 0 0 1)]"
  by (simp add: end_state_def overworld_config_def update_defs eval_defs Let_def)

section \<open>The persisted list: properties\<close>

lemma region_of_json_serialize [simp]: "region_of_json (serialize_region r) = Inr r"
  by (simp add: region_of_json_def serialize_region_def)

lemma extend_regions_ok:
  "map region_of_json js = map Inr rs \<Longrightarrow>
     extend_regions js s =
       (s\<lparr>protectedRegionList := protectedRegionList s @ map (Obj (module_id s)) rs\<rparr>, None)"
proof (induction js arbitrary: rs s)
  case Nil
  then show ?case by simp
next
  case (Cons j js)
  then obtain r rs' where rs: "rs = r # rs'" and j: "region_of_json j = Inr r"
    and rest: "map region_of_json js = map Inr rs'"
    by (cases rs) auto
  show ?case
    by (simp add: j rs Cons.IH[OF rest])
qed

text \<open>
  Whatever the items are, the list only grows at its end, by objects of the class in
  force, and nothing else changes.
\<close>

lemma extend_regions_shape:
  "\<exists>ps. fst (extend_regions js s) =
     s\<lparr>protectedRegionList := protectedRegionList s @ map (Obj (module_id s)) ps\<rparr>"
proof (induction js arbitrary: s)
  case Nil
  have "s = s\<lparr>protectedRegionList := protectedRegionList s @ map (Obj (module_id s)) []\<rparr>"
    by simp
  then show ?case by (metis extend_regions.simps(1) fst_conv)
next
  case (Cons j js)
  show ?case
  proof (cases "region_of_json j")
    case (Inl e)
    have "s = s\<lparr>protectedRegionList := protectedRegionList s @ map (Obj (module_id s)) []\<rparr>"
      by simp
    with Inl show ?thesis by (metis extend_regions.simps(2) fst_conv sum.simps(5))
  next
    case (Inr r)
    let ?s' = "s\<lparr>protectedRegionList := protectedRegionList s @ [Obj (module_id s) r]\<rparr>"
    from Cons.IH[of ?s']
    obtain ps where "fst (extend_regions js ?s') =
        s\<lparr>protectedRegionList := protectedRegionList s @ map (Obj (module_id s)) (r # ps)\<rparr>"
      by auto
    with Inr show ?thesis by (auto simp del: list.map)
  qed
qed

lemma save_ok:
  "\<not> denied (fs s) (protected_path (config s)) \<Longrightarrow>
     save_protected_region_file s =
       (s\<lparr>fs := (fs s)\<lparr>contents := (contents (fs s))(protected_path (config s) \<mapsto>
              JsonText (serialize (protectedRegionList s)))\<rparr>\<rparr>, None)"
  by (simp add: save_protected_region_file_def write_file_def)

lemma save_denied:
  "denied (fs s) (protected_path (config s)) \<Longrightarrow>
     save_protected_region_file s = (s, Some OSError)"
  by (simp add: save_protected_region_file_def write_file_def)

lemma load_after_save:
  assumes "contents (fs t) (protected_path (config t)) =
      Some (JsonText (JArr (map serialize_region rs)))"
    and "protectedRegionList t = []"
  shows "load_protected_region_file t =
      (t\<lparr>protectedRegionList := map (Obj (module_id t)) rs\<rparr>, None)"
  using assms
  by (simp add: load_protected_region_file_def extend_regions_ok[where rs = rs])

lemma same_class_objects:
  "list_all (\<lambda>r. class_id r = n) rs \<Longrightarrow> map (\<lambda>r. Obj n (coords r)) rs = rs"
proof (induction rs)
  case Nil
  show ?case by simp
next
  case (Cons a rs)
  then have "Obj n (coords a) = a" by (cases a) simp
  with Cons show ?case by simp
qed

text \<open>
  Claim C5. When the file of the protected list can be written, saving writes the JSON
  array of the objects \<open>{x, z, dim}\<close> of the protected regions in their order and raises
  nothing. Loading that file into an empty list gives the saved regions back, same
  fields in the same order, as objects of the class in force: the saved list itself
  when its objects are of that class, as they are in the module that saved them. The
  same holds for the load in \<^verbatim>\<open>on_load\<close> of a newly imported module. This holds for
  every protected list, the non-empty ones among them.
\<close>

theorem save_then_load:
  assumes "\<not> denied (fs s) (protected_path (config s))"
  shows "snd (save_protected_region_file s) = None \<and>
         contents (fs (fst (save_protected_region_file s))) (protected_path (config s)) =
           Some (JsonText (JArr (map (\<lambda>r. serialize_region (coords r)) (protectedRegionList s)))) \<and>
         load_protected_region_file
             ((fst (save_protected_region_file s))\<lparr>protectedRegionList := []\<rparr>) =
           ((fst (save_protected_region_file s))
              \<lparr>protectedRegionList :=
                 map (\<lambda>r. Obj (module_id s) (coords r)) (protectedRegionList s)\<rparr>, None) \<and>
         (list_all (\<lambda>r. class_id r = module_id s) (protectedRegionList s) \<longrightarrow>
          load_protected_region_file
             ((fst (save_protected_region_file s))\<lparr>protectedRegionList := []\<rparr>) =
           (fst (save_protected_region_file s), None)) \<and>
         map coords (protectedRegionList
             (fst (on_load (config s) None (fst (save_protected_region_file s))))) =
           map coords (protectedRegionList s) \<and>
         snd (on_load (config s) None (fst (save_protected_region_file s))) = None"
proof -
  let ?p = "protected_path (config s)"
  let ?rs = "map coords (protectedRegionList s)"
  let ?s1 = "s\<lparr>fs := (fs s)\<lparr>contents := (contents (fs s))(?p \<mapsto>
              JsonText (serialize (protectedRegionList s)))\<rparr>\<rparr>"
  let ?t = "(fresh_module ?s1)\<lparr>config := config s\<rparr>"
  have sv: "save_protected_region_file s = (?s1, None)"
    by (rule save_ok[OF assms])
  have ser: "serialize (protectedRegionList s) = JArr (map serialize_region ?rs)"
    by (simp add: serialize_def comp_def)
  have a: "load_protected_region_file (?s1\<lparr>protectedRegionList := []\<rparr>) =
      (?s1\<lparr>protectedRegionList :=
          map (\<lambda>r. Obj (module_id s) (coords r)) (protectedRegionList s)\<rparr>, None)"
    using load_after_save[of "?s1\<lparr>protectedRegionList := []\<rparr>" ?rs]
    by (simp add: ser comp_def)
  have a': "load_protected_region_file (?s1\<lparr>protectedRegionList := []\<rparr>) = (?s1, None)"
    if "list_all (\<lambda>r. class_id r = module_id s) (protectedRegionList s)"
    unfolding a using same_class_objects[OF that] by simp
  have "load_protected_region_file ?t =
      (?t\<lparr>protectedRegionList := map (Obj (module_id ?t)) ?rs\<rparr>, None)"
    by (rule load_after_save) (simp_all add: fresh_module_def ser)
  then have b: "on_load (config s) None ?s1 =
      (?t\<lparr>protectedRegionList := map (Obj (module_id ?t)) ?rs\<rparr>, None)"
    by (simp add: on_load_def)
  have c2: "contents (fs ?s1) ?p =
      Some (JsonText (JArr (map (\<lambda>r. serialize_region (coords r)) (protectedRegionList s))))"
    by (simp add: serialize_def)
  have c4: "map coords (protectedRegionList (fst (on_load (config s) None ?s1))) = ?rs"
    and c5: "snd (on_load (config s) None ?s1) = None"
    unfolding b by (simp_all add: comp_def)
  show ?thesis
    unfolding sv fst_conv snd_conv using a a' c2 c4 c5 by blast
qed

theorem save_then_load_witness:
  "\<not> denied (fs saved_state) (protected_path (config saved_state)) \<and>
   contents (fs (fst (save_protected_region_file saved_state)))
       ''./server/world/protected-regions.json'' =
     Some (JsonText (JArr [JObj [(''x'', JInt 1), (''z'', JInt (- 2)), (''dim'', JInt 0)],
                           JObj [(''x'', JInt 0), (''z'', JInt 0), (''dim'', JInt 1)]])) \<and>
   load_protected_region_file
       ((fst (save_protected_region_file saved_state))\<lparr>protectedRegionList := []\<rparr>) =
     (fst (save_protected_region_file saved_state), None) \<and>
   map coords (protectedRegionList
       (fst (on_load default_config None (fst (save_protected_region_file saved_state))))) =
     [Region 1 (- 2) 0, Region 0 0 1]"
proof -
  have w: "\<not> denied (fs saved_state) (protected_path (config saved_state))"
    by (simp add: saved_state_def eval_defs)
  have p: "protected_path (config saved_state) = ''./server/world/protected-regions.json''"
    by (simp add: saved_state_def protected_path_def eval_defs)
  have c: "config saved_state = default_config"
    and l: "protectedRegionList saved_state = [Obj 0 (Region 1 (- 2) 0), Obj 0 (Region 0 0 1)]"
    and k: "list_all (\<lambda>r. class_id r = module_id saved_state) (protectedRegionList saved_state)"
    by (simp_all add: saved_state_def blank_def)
  note r = save_then_load[OF w]
  from r[THEN conjunct2, THEN conjunct1]
  have a: "contents (fs (fst (save_protected_region_file saved_state)))
       ''./server/world/protected-regions.json'' =
     Some (JsonText (JArr [JObj [(''x'', JInt 1), (''z'', JInt (- 2)), (''dim'', JInt 0)],
                           JObj [(''x'', JInt 0), (''z'', JInt 0), (''dim'', JInt 1)]]))"
    unfolding p l by (simp add: serialize_region_def)
  from r[THEN conjunct2, THEN conjunct2, THEN conjunct2, THEN conjunct1] k
  have b: "load_protected_region_file
       ((fst (save_protected_region_file saved_state))\<lparr>protectedRegionList := []\<rparr>) =
     (fst (save_protected_region_file saved_state), None)"
    by blast
  from r[THEN conjunct2, THEN conjunct2, THEN conjunct2, THEN conjunct2, THEN conjunct1]
  have d: "map coords (protectedRegionList
       (fst (on_load default_config None (fst (save_protected_region_file saved_state))))) =
     [Region 1 (- 2) 0, Region 0 0 1]"
    unfolding c l by simp
  from w a b d show ?thesis by blast
qed

text \<open>
  Claim C6, as the code has it. The claim says that a file which is present and cannot be
  parsed is reset to the empty array and never makes the load fail. The reset is a call
  of \<^verbatim>\<open>save_protected_region_file\<close> inside the \<^verbatim>\<open>except\<close> handler, with nothing around
  it. In every case the load logs the failure and empties the list in memory. When the
  file can be rewritten, it leaves the empty JSON array in the file and raises nothing.
  When it cannot, the error of the write leaves the load and the file stays as it was.
  A missing file: the load changes nothing and raises nothing, so a list that was empty
  (as it is when \<^verbatim>\<open>on_load\<close> calls it) stays empty.
\<close>

theorem load_unparseable_or_missing:
  "(\<forall>b. contents (fs s) (protected_path (config s)) = Some (Bytes b) \<and>
        \<not> denied (fs s) (protected_path (config s)) \<longrightarrow>
      snd (load_protected_region_file s) = None \<and>
      protectedRegionList (fst (load_protected_region_file s)) = [] \<and>
      contents (fs (fst (load_protected_region_file s))) (protected_path (config s)) =
        Some (JsonText (JArr [])) \<and>
      logger (fst (load_protected_region_file s)) =
        logger s @ [LoadFailed (protected_path (config s))]) \<and>
   (\<forall>b. contents (fs s) (protected_path (config s)) = Some (Bytes b) \<and>
        denied (fs s) (protected_path (config s)) \<longrightarrow>
      snd (load_protected_region_file s) = Some OSError \<and>
      protectedRegionList (fst (load_protected_region_file s)) = [] \<and>
      fs (fst (load_protected_region_file s)) = fs s \<and>
      logger (fst (load_protected_region_file s)) =
        logger s @ [LoadFailed (protected_path (config s))]) \<and>
   (contents (fs s) (protected_path (config s)) = None \<longrightarrow>
      load_protected_region_file s = (s, None))"
  by (simp add: load_protected_region_file_def save_protected_region_file_def write_file_def
      log_line_def serialize_def)

theorem load_unparseable_or_missing_witness:
  "contents (fs corrupt_state) (protected_path (config corrupt_state)) = Some (Bytes ''[{'') \<and>
   snd (load_protected_region_file corrupt_state) = None \<and>
   protectedRegionList (fst (load_protected_region_file corrupt_state)) = [] \<and>
   contents (fs (fst (load_protected_region_file corrupt_state)))
       ''./server/world/protected-regions.json'' = Some (JsonText (JArr [])) \<and>
   denied (fs readonly_state) (protected_path (config readonly_state)) \<and>
   snd (load_protected_region_file readonly_state) = Some OSError \<and>
   protectedRegionList (fst (load_protected_region_file readonly_state)) = [] \<and>
   load_protected_region_file (blank default_config empty_files) =
     (blank default_config empty_files, None)"
proof -
  have p: "protected_path (config corrupt_state) = ''./server/world/protected-regions.json''"
    by (simp add: corrupt_state_def protected_path_def eval_defs)
  have b: "contents (fs corrupt_state) (protected_path (config corrupt_state)) = Some (Bytes ''[{'')"
    and d: "\<not> denied (fs corrupt_state) (protected_path (config corrupt_state))"
    unfolding p by (simp_all add: corrupt_state_def corrupt_files_def blank_def)
  have p': "protected_path (config readonly_state) = ''./server/world/protected-regions.json''"
    by (simp add: readonly_state_def protected_path_def eval_defs)
  have b': "contents (fs readonly_state) (protected_path (config readonly_state)) =
      Some (Bytes ''[{'')"
    and d': "denied (fs readonly_state) (protected_path (config readonly_state))"
    unfolding p' by (simp_all add: readonly_state_def readonly_files_def blank_def)
  have n: "contents (fs (blank default_config empty_files))
      (protected_path (config (blank default_config empty_files))) = None"
    by (simp add: blank_def empty_files_def)
  from load_unparseable_or_missing[of corrupt_state] b d
    load_unparseable_or_missing[of readonly_state] b' d'
    load_unparseable_or_missing[of "blank default_config empty_files"] n
  show ?thesis
    unfolding p by blast
qed

text \<open>
  Against the claim C6 as stated: the file of the protected list is present, cannot be
  parsed and cannot be rewritten. The load ends with the error of the write, and so
  does \<^verbatim>\<open>on_load\<close>; the file still holds what it held.
\<close>

theorem load_unparseable_readonly_counterexample:
  "snd (load_protected_region_file readonly_state) = Some OSError \<and>
   contents (fs (fst (load_protected_region_file readonly_state)))
       ''./server/world/protected-regions.json'' = Some (Bytes ''[{'') \<and>
   snd (on_load default_config None readonly_state) = Some OSError"
  by (simp add: readonly_state_def readonly_files_def persist_defs eval_defs)

text \<open>
  Claim C10. Loading a file that parses never removes what the list in memory holds:
  the list before the load is a prefix of the list after it. When the file is an array
  of region objects, the list after the load is the list before it followed by the
  regions of the file in the order of the file, and nothing is raised; a second load of
  the same file appends them once more.
\<close>

theorem load_extends:
  "(\<forall>j. contents (fs s) (protected_path (config s)) = Some (JsonText j) \<longrightarrow>
      prefix (protectedRegionList s) (protectedRegionList (fst (load_protected_region_file s)))) \<and>
   (\<forall>js rs. contents (fs s) (protected_path (config s)) = Some (JsonText (JArr js)) \<and>
        map region_of_json js = map Inr rs \<longrightarrow>
      load_protected_region_file s =
        (s\<lparr>protectedRegionList := protectedRegionList s @ map (Obj (module_id s)) rs\<rparr>, None) \<and>
      protectedRegionList (fst (load_protected_region_file (fst (load_protected_region_file s)))) =
        protectedRegionList s @ map (Obj (module_id s)) rs @ map (Obj (module_id s)) rs)"
proof (intro conjI allI impI)
  fix j
  assume c: "contents (fs s) (protected_path (config s)) = Some (JsonText j)"
  show "prefix (protectedRegionList s) (protectedRegionList (fst (load_protected_region_file s)))"
  proof (cases "json_iter j")
    case (Inl e)
    with c show ?thesis by (simp add: load_protected_region_file_def)
  next
    case (Inr items)
    obtain ps where
      "fst (extend_regions items s) =
         s\<lparr>protectedRegionList := protectedRegionList s @ map (Obj (module_id s)) ps\<rparr>"
      using extend_regions_shape by blast
    with c Inr show ?thesis by (simp add: load_protected_region_file_def)
  qed
next
  fix js rs
  assume a: "contents (fs s) (protected_path (config s)) = Some (JsonText (JArr js)) \<and>
        map region_of_json js = map Inr rs"
  then show l1: "load_protected_region_file s =
        (s\<lparr>protectedRegionList := protectedRegionList s @ map (Obj (module_id s)) rs\<rparr>, None)"
    by (simp add: load_protected_region_file_def extend_regions_ok)
  from a show
    "protectedRegionList (fst (load_protected_region_file (fst (load_protected_region_file s)))) =
        protectedRegionList s @ map (Obj (module_id s)) rs @ map (Obj (module_id s)) rs"
    unfolding l1 by (simp add: load_protected_region_file_def extend_regions_ok)
qed

theorem load_extends_witness:
  "protectedRegionList (fst (load_protected_region_file listed_state)) =
     [Obj 0 (Region 5 5 0), Obj 0 (Region 1 (- 2) 0), Obj 0 (Region 0 0 1)] \<and>
   protectedRegionList
       (fst (load_protected_region_file (fst (load_protected_region_file listed_state)))) =
     [Obj 0 (Region 5 5 0), Obj 0 (Region 1 (- 2) 0), Obj 0 (Region 0 0 1),
      Obj 0 (Region 1 (- 2) 0), Obj 0 (Region 0 0 1)]"
proof -
  let ?js = "[JObj [(''x'', JInt 1), (''z'', JInt (- 2)), (''dim'', JInt 0)],
              JObj [(''x'', JInt 0), (''z'', JInt 0), (''dim'', JInt 1)]]"
  let ?rs = "[Region 1 (- 2) 0, Region 0 0 1]"
  have c: "contents (fs listed_state) (protected_path (config listed_state)) =
      Some (JsonText (JArr ?js))"
    by (simp add: listed_state_def listed_files_def protected_path_def eval_defs)
  have m: "map region_of_json ?js = map Inr ?rs"
    by (simp add: region_of_json_def)
  have l: "protectedRegionList listed_state = [Obj 0 (Region 5 5 0)]"
    and i: "module_id listed_state = 0"
    by (simp_all add: listed_state_def blank_def)
  from load_extends[of listed_state] c m
  have "load_protected_region_file listed_state =
        (listed_state\<lparr>protectedRegionList :=
           protectedRegionList listed_state @ map (Obj (module_id listed_state)) ?rs\<rparr>, None) \<and>
      protectedRegionList
          (fst (load_protected_region_file (fst (load_protected_region_file listed_state)))) =
        protectedRegionList listed_state @ map (Obj (module_id listed_state)) ?rs @
          map (Obj (module_id listed_state)) ?rs"
    by blast
  note r = this
  from r[THEN conjunct1]
  have a: "protectedRegionList (fst (load_protected_region_file listed_state)) =
      [Obj 0 (Region 5 5 0), Obj 0 (Region 1 (- 2) 0), Obj 0 (Region 0 0 1)]"
    by (simp add: l i)
  from r[THEN conjunct2]
  have b: "protectedRegionList
        (fst (load_protected_region_file (fst (load_protected_region_file listed_state)))) =
      [Obj 0 (Region 5 5 0), Obj 0 (Region 1 (- 2) 0), Obj 0 (Region 0 0 1),
       Obj 0 (Region 1 (- 2) 0), Obj 0 (Region 0 0 1)]"
    by (simp add: l i)
  from a b show ?thesis by blast
qed

section \<open>The region set manager: properties\<close>

lemma add_region_present:
  "r \<in> set (regionList s) \<Longrightarrow> add_region r s = reply AlreadyInList s"
  by (simp add: add_region_def)

lemma add_region_new:
  "r \<notin> set (regionList s) \<Longrightarrow> r \<notin> set (protectedRegionList s) \<Longrightarrow>
     add_region r s = reply (Added (coords r)) (s\<lparr>regionList := regionList s @ [r]\<rparr>)"
  by (simp add: add_region_def)

lemma add_region_protected:
  "r \<notin> set (regionList s) \<Longrightarrow> r \<in> set (protectedRegionList s) \<Longrightarrow> add_region r s = s"
  by (simp add: add_region_def)

lemma count_list_distinct:
  "distinct xs \<Longrightarrow> x \<in> set xs \<Longrightarrow> count_list xs x = 1"
  by (induction xs) (auto simp: count_list_0_iff)

text \<open>
  Adding a region twice, when it is not protected: it is in the pending list once, and
  the second call answers that the list already has it.
\<close>

lemma add_region_twice:
  assumes "r \<notin> set (protectedRegionList s)" and "distinct (regionList s)"
  shows "count_list (regionList (add_region r (add_region r s))) r = 1 \<and>
         replies (add_region r (add_region r s)) = replies (add_region r s) @ [AlreadyInList]"
proof -
  have in1: "r \<in> set (regionList (add_region r s))"
    using assms(1) by (simp add: add_region_def reply_def)
  have d1: "distinct (regionList (add_region r s))"
    using assms by (simp add: add_region_def reply_def)
  have "count_list (regionList (add_region r s)) r = 1"
    using in1 d1 by (simp add: count_list_distinct)
  then show ?thesis
    by (simp add: add_region_present[OF in1] reply_def)
qed

text \<open>
  Claim C4, which says that adding a protected region is answered with a signal that
  the region is protected. Every other branch of the command functions sends a reply;
  the branch of \<^verbatim>\<open>add_region\<close> for a protected region has none. With the region
  \<open>(0, 0, 0)\<close> protected and nothing pending, \<^verbatim>\<open>add_region\<close> sends no reply and changes
  nothing.
\<close>

theorem add_region_protected_silent:
  "replies (add_region (Obj 0 (Region 0 0 0)) protected_state) = [] \<and>
   add_region (Obj 0 (Region 0 0 0)) protected_state = protected_state"
  by (simp add: protected_state_def add_region_def eval_defs)

subsection \<open>What the commands keep\<close>

lemma save_frame [simp]:
  "regionList (fst (save_protected_region_file s)) = regionList s"
  "protectedRegionList (fst (save_protected_region_file s)) = protectedRegionList s"
  "module_id (fst (save_protected_region_file s)) = module_id s"
  by (simp_all add: save_protected_region_file_def split: sum.splits)

lemma extend_regions_frame [simp]:
  "regionList (fst (extend_regions js s)) = regionList s"
  "module_id (fst (extend_regions js s)) = module_id s"
  by (induction js arbitrary: s) (simp_all split: sum.splits)

lemma load_frame [simp]:
  "regionList (fst (load_protected_region_file s)) = regionList s"
  "module_id (fst (load_protected_region_file s)) = module_id s"
  by (simp_all add: load_protected_region_file_def log_line_def
      split: option.splits content.splits sum.splits)

text \<open>An update that raises leaves the pending list as it was; otherwise it empties it.\<close>

lemma region_update_regionList:
  "regionList (fst (region_update s)) =
     (if snd (region_update s) = None then [] else regionList s)"
proof -
  let ?s2 = "(log_line (UpdateHeader (length (regionList s)))
               (stop_server (announce (show_region_list s))))\<lparr>historyList := []\<rparr>"
  have "regionList (fst (transfer_regions (regionList s) ?s2)) = regionList ?s2"
    by (rule transfer_regions_frame)
  also have "\<dots> = regionList s"
    by (simp add: stop_server_def announce_def show_region_list_def log_line_def)
  finally show ?thesis
    by (cases "transfer_regions (regionList s) ?s2")
      (auto simp: region_update_prep start_server_def split: option.splits)
qed

lemma region_update_protected [simp]:
  "protectedRegionList (fst (region_update s)) = protectedRegionList s"
proof -
  let ?s2 = "(log_line (UpdateHeader (length (regionList s)))
               (stop_server (announce (show_region_list s))))\<lparr>historyList := []\<rparr>"
  have "protectedRegionList (fst (transfer_regions (regionList s) ?s2)) = protectedRegionList ?s2"
    by (rule transfer_regions_frame)
  also have "\<dots> = protectedRegionList s"
    by (simp add: stop_server_def announce_def show_region_list_def log_line_def)
  finally show ?thesis
    by (cases "transfer_regions (regionList s) ?s2")
      (auto simp: region_update_prep start_server_def split: option.splits)
qed

lemma region_update_module_id [simp]:
  "module_id (fst (region_update s)) = module_id s"
proof -
  let ?s2 = "(log_line (UpdateHeader (length (regionList s)))
               (stop_server (announce (show_region_list s))))\<lparr>historyList := []\<rparr>"
  have "module_id (fst (transfer_regions (regionList s) ?s2)) = module_id ?s2"
    by (rule transfer_regions_frame)
  also have "\<dots> = module_id s"
    by (simp add: stop_server_def announce_def show_region_list_def log_line_def)
  finally show ?thesis
    by (cases "transfer_regions (regionList s) ?s2")
      (auto simp: region_update_prep start_server_def split: option.splits)
qed

lemma exec_module_id: "\<not> reloads c \<Longrightarrow> module_id (exec c s) = module_id s"
  by (cases c)
    (simp_all add: reloads_def add_region_def delete_region_def clean_region_list_def reply_def
      protect_region_def deprotect_region_def Let_def show_region_list_def
      show_protected_regions_def show_history_def reload_config_def)

subsection \<open>Within one load of the plugin\<close>

lemma disjoint_remove1:
  "set xs \<inter> B = {} \<Longrightarrow> set (remove1 r xs) \<inter> B = {}"
  using set_remove1_subset[of r xs] by fast

lemma disjoint_remove1_right:
  "A \<inter> set ys = {} \<Longrightarrow> A \<inter> set (remove1 r ys) = {}"
  using set_remove1_subset[of r ys] by fast

lemma list_all_remove1: "list_all P xs \<Longrightarrow> list_all P (remove1 r xs)"
  using set_remove1_subset[of r xs] by (auto simp: list_all_iff)

text \<open>
  Every command but the reload of the plugin keeps three things together: no object is
  pending twice, the objects of both lists are of the class in force, and no object is
  pending and protected.
\<close>

lemma exec_distinct:
  "distinct (regionList s) \<Longrightarrow> \<not> reloads c \<Longrightarrow> distinct (regionList (exec c s))"
  by (cases c)
    (simp_all add: reloads_def add_region_def delete_region_def clean_region_list_def reply_def
      protect_region_def deprotect_region_def Let_def show_region_list_def
      show_protected_regions_def show_history_def region_update_regionList reload_config_def)

lemma exec_one_class:
  assumes "one_class s" and "\<not> reloads c"
  shows "one_class (exec c s)"
proof -
  have m: "module_id (exec c s) = module_id s"
    by (rule exec_module_id[OF assms(2)])
  let ?P = "\<lambda>r. class_id r = module_id s"
  from assms(1) have a: "list_all ?P (regionList s)" and b: "list_all ?P (protectedRegionList s)"
    by (simp_all add: one_class_def)
  have "list_all ?P (regionList (exec c s)) \<and> list_all ?P (protectedRegionList (exec c s))"
    using a b assms(2)
    by (cases c)
      (simp_all add: reloads_def add_region_def delete_region_def clean_region_list_def
        reply_def protect_region_def deprotect_region_def Let_def show_region_list_def
        show_protected_regions_def show_history_def region_update_regionList reload_config_def
        list_all_remove1)
  then show ?thesis
    by (simp add: one_class_def m)
qed

lemma exec_disjoint:
  assumes "set (regionList s) \<inter> set (protectedRegionList s) = {}"
    and "distinct (regionList s)" and "\<not> reloads c"
  shows "set (regionList (exec c s)) \<inter> set (protectedRegionList (exec c s)) = {}"
proof (cases c)
  case (AddCmd r)
  with assms(1) show ?thesis by (auto simp: add_region_def reply_def)
next
  case (DelCmd r)
  with assms(1) show ?thesis
    by (simp add: delete_region_def reply_def disjoint_remove1)
next
  case (ProtectCmd r)
  with assms(1,2) show ?thesis
    by (auto simp: protect_region_def reply_def Let_def)
next
  case (DeprotectCmd r)
  with assms(1) show ?thesis
    by (simp add: deprotect_region_def reply_def disjoint_remove1_right)
next
  case (ReloadPlugin cfg)
  with assms(3) show ?thesis by (simp add: reloads_def)
qed (use assms(1) in \<open>simp_all add: clean_region_list_def reply_def
      show_region_list_def show_protected_regions_def show_history_def region_update_regionList
      reload_config_def\<close>)

lemma run_single_load:
  assumes "list_all (\<lambda>c. \<not> reloads c) cs"
    and "distinct (regionList s)" and "one_class s"
    and "set (regionList s) \<inter> set (protectedRegionList s) = {}"
  shows "distinct (regionList (run cs s)) \<and> one_class (run cs s) \<and>
         set (regionList (run cs s)) \<inter> set (protectedRegionList (run cs s)) = {}"
  using assms
proof (induction cs arbitrary: s)
  case Nil
  then show ?case by simp
next
  case (Cons c cs)
  from Cons.prems have n: "\<not> reloads c" and rest: "list_all (\<lambda>c. \<not> reloads c) cs"
    by simp_all
  show ?case
    using Cons.IH[OF rest exec_distinct[OF Cons.prems(2) n] exec_one_class[OF Cons.prems(3) n]
        exec_disjoint[OF Cons.prems(4) Cons.prems(2) n]]
    by simp
qed

text \<open>After the first load nothing is pending, and what is protected is of its class.\<close>

lemma startup_single_load:
  "regionList (startup cfg f) = [] \<and> one_class (startup cfg f)"
proof -
  let ?t = "(fresh_module (blank cfg f))\<lparr>config := cfg\<rparr>"
  have t: "regionList ?t = []" "protectedRegionList ?t = []"
    by (simp_all add: fresh_module_def)
  have s: "startup cfg f = fst (load_protected_region_file ?t)"
    by (simp add: startup_def on_load_def)
  have "list_all (\<lambda>r. class_id r = module_id ?t)
          (protectedRegionList (fst (load_protected_region_file ?t)))"
  proof (cases "contents (fs ?t) (protected_path (config ?t))")
    case None
    then show ?thesis by (simp add: load_protected_region_file_def t)
  next
    case (Some c)
    show ?thesis
    proof (cases c)
      case (Bytes b)
      with Some show ?thesis
        by (simp add: load_protected_region_file_def)
    next
      case (JsonText j)
      show ?thesis
      proof (cases "json_iter j")
        case (Inl e)
        with Some JsonText show ?thesis by (simp add: load_protected_region_file_def t)
      next
        case (Inr items)
        obtain ps where "fst (extend_regions items ?t) =
            ?t\<lparr>protectedRegionList := protectedRegionList ?t @ map (Obj (module_id ?t)) ps\<rparr>"
          using extend_regions_shape by blast
        with Some JsonText Inr show ?thesis
          by (simp add: load_protected_region_file_def t list_all_iff)
      qed
    qed
  qed
  then show ?thesis
    unfolding s by (simp add: one_class_def t)
qed

lemma same_class_distinct:
  "distinct xs \<Longrightarrow> list_all (\<lambda>r. class_id r = n) xs \<Longrightarrow> distinct (map coords xs)"
  by (auto simp: distinct_map list_all_iff intro!: inj_onI region_obj.expand)

lemma same_class_disjoint:
  assumes d: "set xs \<inter> set ys = {}"
    and x: "list_all (\<lambda>r. class_id r = n) xs"
    and y: "list_all (\<lambda>r. class_id r = n) ys"
  shows "set (map coords xs) \<inter> set (map coords ys) = {}"
proof -
  have "coords a \<noteq> coords b" if a: "a \<in> set xs" and b: "b \<in> set ys" for a b
  proof
    assume c: "coords a = coords b"
    from a b x y have "class_id a = class_id b" by (simp add: list_all_iff)
    with c have "a = b" by (simp add: region_obj.expand)
    with a b d show False by auto
  qed
  then show ?thesis by auto
qed

text \<open>
  Claim C9. From the first load of the plugin, with any configuration and any files,
  whatever commands follow within that load (adding, deleting, clearing, protecting,
  deprotecting, the update with its final clear or with its exception, reloads of the
  configuration, changes of the files from outside), no region occurs twice in the
  pending list: the fields of the pending objects are pairwise different.
\<close>

theorem pending_distinct:
  assumes "\<forall>c\<in>set cs. \<not> reloads c"
  shows "distinct (map coords (regionList (run cs (startup cfg f))))"
proof -
  from assms have n: "list_all (\<lambda>c. \<not> reloads c) cs"
    by (simp add: list_all_iff)
  have s: "distinct (regionList (startup cfg f))" "one_class (startup cfg f)"
    "set (regionList (startup cfg f)) \<inter> set (protectedRegionList (startup cfg f)) = {}"
    using startup_single_load[of cfg f] by simp_all
  from run_single_load[OF n s]
  have d: "distinct (regionList (run cs (startup cfg f)))"
    and o: "one_class (run cs (startup cfg f))"
    by simp_all
  from o have "list_all (\<lambda>r. class_id r = module_id (run cs (startup cfg f)))
      (regionList (run cs (startup cfg f)))"
    by (simp add: one_class_def)
  with d show ?thesis
    by (rule same_class_distinct)
qed

theorem pending_distinct_witness:
  "\<not> reloads (AddCmd (Region 0 0 0)) \<and> \<not> reloads (AddCmd (Region 1 0 0)) \<and>
   map coords (regionList
      (run [AddCmd (Region 0 0 0), AddCmd (Region 1 0 0), AddCmd (Region 0 0 0)]
         (startup default_config empty_files))) = [Region 0 0 0, Region 1 0 0] \<and>
   distinct (map coords (regionList
      (run [AddCmd (Region 0 0 0), AddCmd (Region 1 0 0), AddCmd (Region 0 0 0)]
         (startup default_config empty_files))))"
proof -
  let ?cs = "[AddCmd (Region 0 0 0), AddCmd (Region 1 0 0), AddCmd (Region 0 0 0)]"
  have h: "\<forall>c\<in>set ?cs. \<not> reloads c"
    by (simp add: reloads_def)
  have v: "map coords (regionList (run ?cs (startup default_config empty_files))) =
      [Region 0 0 0, Region 1 0 0]"
    by (simp add: persist_defs manager_defs eval_defs)
  from h v pending_distinct[OF h, of default_config empty_files]
  show ?thesis by simp
qed

text \<open>
  After a reload of the plugin the pending objects are of the class of the previous
  import, and no object built afterwards is equal to them: adding the same region again
  appends a second object with the same fields.
\<close>

lemma add_after_reload:
  "map coords (regionList
     (run [AddCmd (Region 0 0 0), ReloadPlugin default_config, AddCmd (Region 0 0 0)]
        (startup default_config empty_files))) = [Region 0 0 0, Region 0 0 0]"
  by (simp add: persist_defs manager_defs eval_defs)

subsection \<open>Pending and protected regions\<close>

text \<open>
  Within one load of the plugin no region is pending and protected.
\<close>

lemma single_load_disjoint:
  assumes "\<forall>c\<in>set cs. \<not> reloads c"
  shows "set (map coords (regionList (run cs (startup cfg f)))) \<inter>
         set (map coords (protectedRegionList (run cs (startup cfg f)))) = {}"
proof -
  from assms have n: "list_all (\<lambda>c. \<not> reloads c) cs"
    by (simp add: list_all_iff)
  have s: "distinct (regionList (startup cfg f))" "one_class (startup cfg f)"
    "set (regionList (startup cfg f)) \<inter> set (protectedRegionList (startup cfg f)) = {}"
    using startup_single_load[of cfg f] by simp_all
  from run_single_load[OF n s]
  have o: "one_class (run cs (startup cfg f))"
    and d: "set (regionList (run cs (startup cfg f))) \<inter>
         set (protectedRegionList (run cs (startup cfg f))) = {}"
    by simp_all
  from o have a: "list_all (\<lambda>r. class_id r = module_id (run cs (startup cfg f)))
      (regionList (run cs (startup cfg f)))"
    and b: "list_all (\<lambda>r. class_id r = module_id (run cs (startup cfg f)))
      (protectedRegionList (run cs (startup cfg f)))"
    by (simp_all add: one_class_def)
  from d a b show ?thesis
    by (rule same_class_disjoint)
qed

text \<open>
  A reload of the plugin keeps them apart when the file holds the protected list as
  it is in memory.
\<close>

lemma reload_in_sync_disjoint:
  assumes "contents (fs s) (protected_path cfg) =
      Some (JsonText (serialize (protectedRegionList s)))"
    and "set (map coords (regionList s)) \<inter> set (map coords (protectedRegionList s)) = {}"
  shows "set (map coords (regionList (exec (ReloadPlugin cfg) s))) \<inter>
         set (map coords (protectedRegionList (exec (ReloadPlugin cfg) s))) = {}"
proof -
  let ?t = "((fresh_module s)\<lparr>historyList := historyList s,
               regionList := regionList s\<rparr>)\<lparr>config := cfg\<rparr>"
  let ?rs = "map coords (protectedRegionList s)"
  have "load_protected_region_file ?t =
      (?t\<lparr>protectedRegionList := map (Obj (module_id ?t)) ?rs\<rparr>, None)"
    by (rule load_after_save) (simp_all add: fresh_module_def assms(1) serialize_def comp_def)
  then have "exec (ReloadPlugin cfg) s = ?t\<lparr>protectedRegionList := map (Obj (module_id ?t)) ?rs\<rparr>"
    by (simp add: on_load_def)
  with assms(2) show ?thesis
    by (simp add: fresh_module_def comp_def)
qed

text \<open>
  After a reload, protecting a pending region leaves it pending: the pending object
  is of the class of the previous import and \<^verbatim>\<open>region in regionList\<close> is false.
\<close>

lemma protect_after_reload:
  "map coords (regionList
     (run [AddCmd (Region 0 0 0), ReloadPlugin default_config, ProtectCmd (Region 0 0 0)]
        (startup default_config empty_files))) = [Region 0 0 0] \<and>
   map coords (protectedRegionList
     (run [AddCmd (Region 0 0 0), ReloadPlugin default_config, ProtectCmd (Region 0 0 0)]
        (startup default_config empty_files))) = [Region 0 0 0]"
  by (simp add: persist_defs manager_defs eval_defs Let_def)

text \<open>
  Claim C3, which says that the pending and the protected regions are disjoint at every
  moment, also after the plugin is reloaded with the pending list handed over.
  \<^verbatim>\<open>protect_region\<close> takes a region out of the pending list when it protects it;
  \<^verbatim>\<open>load_protected_region_file\<close> adds the regions of the file to the protected list and
  leaves the pending list alone. After the commands \<open>restore_commands\<close>, run from the
  first load on an empty file system, the region \<open>(0, 0, 0)\<close> is pending and protected.
\<close>

theorem reload_breaks_disjointness:
  "map coords (regionList (run restore_commands (startup default_config empty_files))) =
     [Region 0 0 0] \<and>
   map coords (protectedRegionList (run restore_commands (startup default_config empty_files))) =
     [Region 0 0 0]"
  by (simp add: restore_commands_def restored_files_def persist_defs manager_defs eval_defs Let_def)

end
